theory Spec2Isabelle
  imports Complex_Main "HOL-Library.AList"
begin

section \<open>The timer and alarm subsystem of src/timer_alarm.py\<close>

text \<open>
  The embedding follows the Python source function by function.  Conventions:
  \<^item> a Python dict is an association list in insertion order; \<open>d[k] = v\<close> is
    \<open>AList.update\<close> (an existing key keeps its place, a new key goes last),
    \<open>del d[k]\<close> is \<open>AList.delete\<close>, \<open>k in d\<close> and \<open>d[k]\<close> are \<open>map_of\<close>,
    \<open>len(d)\<close> is \<open>length\<close>;
  \<^item> \<open>time.time()\<close> is a real number of seconds, \<open>datetime.datetime.now()\<close> a naive
    date-time record; both are arguments of the function that reads them, and the
    successive clock readings inside one function are taken as one instant;
  \<^item> the objects the module mutates (the singleton manager, the futures returned by
    \<open>asyncio.run_coroutine_threadsafe\<close>, the event loop of the connection, the
    messages sent and the log) are the fields of one record \<open>world\<close>, passed in and
    returned;
  \<^item> an exception is a value: a function that can raise returns the world it leaves
    behind together with \<open>Some\<close> exception;
  \<^item> the Chinese text literals of the source are constructors of small datatypes,
    one per literal or format string, with the source line in the comment.
  The numeric limits of the Python runtime (float rounding, the year range of
  \<open>datetime.date\<close>, the range of \<open>time.localtime\<close>) are not part of the model.
\<close>

subsection \<open>Text helpers\<close>

fun str_nat :: "nat \<Rightarrow> string" where
  "str_nat n =
     (if n < 10 then [char_of (48 + n)]
      else str_nat (n div 10) @ [char_of (48 + n mod 10)])"

declare str_nat.simps [simp del]

text \<open>The decimal text of a Python int, as an f-string prints it.\<close>

definition str_int :: "int \<Rightarrow> string" where
  "str_int i = (if i < 0 then ''-'' @ str_nat (nat (- i)) else str_nat (nat i))"

text \<open>Python's \<open>int(x)\<close> on a float truncates towards zero.\<close>

definition py_int :: "real \<Rightarrow> int" where
  "py_int x = (if 0 \<le> x then \<lfloor>x\<rfloor> else \<lceil>x\<rceil>)"

text \<open>Truthiness of an optional string (\<open>if label:\<close>): neither None nor empty.\<close>

definition truthy :: "string option \<Rightarrow> bool" where
  "truthy s = (case s of None \<Rightarrow> False | Some t \<Rightarrow> t \<noteq> [])"

subsection \<open>Data model\<close>

type_synonym handle = nat

text \<open>
  The state of the \<open>concurrent.futures.Future\<close> that
  \<open>asyncio.run_coroutine_threadsafe\<close> returns: it stays pending until the coroutine has
  run to its end or the future is cancelled; \<open>done()\<close> is true in the two other states,
  and \<open>cancel()\<close> changes a pending future only.
\<close>

datatype fut_state = Pending | Finished | Cancelled

record entry =
  label :: "string option"
  task :: "handle option"

text \<open>The dict stored in \<open>self.timers[timer_id]\<close> (lines 175-181).\<close>

record timer = entry +
  duration :: int
  start_time :: real
  end_time :: real

text \<open>A naive \<open>datetime.datetime\<close>: the day is the ordinal of the date.\<close>

record datetime =
  dt_day :: int
  dt_hour :: int
  dt_minute :: int
  dt_second :: int
  dt_microsecond :: int

text \<open>The dict stored in \<open>self.alarms[alarm_id]\<close> (lines 199-206).\<close>

record alarm = entry +
  hour :: int
  minute :: int
  day_offset :: int
  time :: datetime

text \<open>The messages built by the two callbacks (lines 277-280 and 307-310).\<close>

datatype notice =
    Timer_labelled string      \<comment> \<open>line 278, with the label\<close>
  | Timer_plain                \<comment> \<open>line 280\<close>
  | Alarm_labelled string      \<comment> \<open>line 308, with the label\<close>
  | Alarm_plain int int        \<comment> \<open>line 310, with the hour and the minute of the alarm\<close>

text \<open>The coroutine objects handed to the event loop, with their arguments.\<close>

datatype coro =
    Timer_coro string "string option"    \<comment> \<open>\<open>timer_callback(conn, timer_id, label)\<close>\<close>
  | Alarm_coro string "string option"    \<comment> \<open>\<open>alarm_callback(conn, alarm_id, label)\<close>\<close>

datatype chat_target = Chat_with_function_calling | Chat

datatype exn = KeyError | ValueError | Delivery_failed | Submit_failed

datatype log_entry =
    Info_timer_fired string notice   \<comment> \<open>line 295\<close>
  | Error_timer_callback exn         \<comment> \<open>line 297\<close>
  | Info_alarm_fired string notice   \<comment> \<open>line 325\<close>
  | Error_alarm_callback exn         \<comment> \<open>line 327\<close>
  | Info_timer_set string            \<comment> \<open>line 400\<close>
  | Error_set_timer exn              \<comment> \<open>line 418\<close>
  | Info_alarm_set string            \<comment> \<open>line 480\<close>
  | Error_set_alarm exn              \<comment> \<open>line 498\<close>
  | Error_check exn                  \<comment> \<open>line 583\<close>
  | Error_cancel exn                 \<comment> \<open>line 653\<close>

text \<open>
  What the callbacks read of the connection object: whether it has a \<open>websocket\<close>
  attribute (\<open>None\<close> when it has none) and whether that is truthy, the mode flag, and
  whether \<open>send_stt_message\<close> and \<open>conn.executor.submit\<close> raise on it.
\<close>

record conn =
  websocket :: "bool option"
  use_function_call_mode :: bool
  send_raises :: bool
  submit_raises :: bool

record world =
  timers :: "(string \<times> timer) list"          \<comment> \<open>\<open>manager.timers\<close>\<close>
  alarms :: "(string \<times> alarm) list"          \<comment> \<open>\<open>manager.alarms\<close>\<close>
  futures :: "handle \<Rightarrow> fut_state"            \<comment> \<open>the futures, by handle\<close>
  next_handle :: handle                       \<comment> \<open>the next unused handle\<close>
  loop_ready :: "(handle \<times> coro) list"       \<comment> \<open>coroutines submitted to \<open>conn.loop\<close>, not yet run\<close>
  sleepers :: "real list"                     \<comment> \<open>the \<open>time.sleep\<close> arguments of the daemon threads\<close>
  outbox :: "notice list"                     \<comment> \<open>messages sent by \<open>send_stt_message\<close>\<close>
  submitted :: "(chat_target \<times> notice) list"  \<comment> \<open>calls of \<open>conn.executor.submit\<close>\<close>
  logs :: "log_entry list"

definition empty_world :: world where
  "empty_world =
     \<lparr>timers = [], alarms = [], futures = (\<lambda>_. Pending), next_handle = 0, loop_ready = [],
      sleepers = [], outbox = [], submitted = [], logs = []\<rparr>"

subsection \<open>Futures\<close>

definition fut_done :: "world \<Rightarrow> handle \<Rightarrow> bool" where
  "fut_done w h = (futures w h \<noteq> Pending)"

definition fut_cancel :: "handle \<Rightarrow> world \<Rightarrow> world" where
  "fut_cancel h w =
     (if futures w h = Pending then w\<lparr>futures := (futures w)(h := Cancelled)\<rparr> else w)"

text \<open>
  The idiom of lines 215-216, 223-224, 235-236, 243-244 and 259-260:
  \<open>if e["task"] and not e["task"].done(): e["task"].cancel()\<close>.
\<close>

definition cancel_task :: "handle option \<Rightarrow> world \<Rightarrow> world" where
  "cancel_task t w =
     (case t of
        None \<Rightarrow> w
      | Some h \<Rightarrow> if \<not> fut_done w h then fut_cancel h w else w)"

subsection \<open>The manager (class TimerAlarmManager)\<close>

definition add_timer :: "int \<Rightarrow> string option \<Rightarrow> real \<Rightarrow> world \<Rightarrow> world \<times> string" where
  "add_timer dur lbl now w =
     (let timer_id = ''timer_'' @ str_int (py_int now) @ ''_'' @ str_int (int (length (timers w)));
          start = now;
          end = start + of_int dur
      in (w\<lparr>timers :=
             AList.update timer_id
               \<lparr>label = lbl, task = None, duration = dur, start_time = start, end_time = end\<rparr>
               (timers w)\<rparr>,
          timer_id))"

text \<open>The loops of lines 214-216 and 234-236, over the snapshot \<open>list(d.items())\<close>.\<close>

fun cancel_tasks :: "(string \<times> 'a entry_scheme) list \<Rightarrow> world \<Rightarrow> world" where
  "cancel_tasks [] w = w"
| "cancel_tasks ((k, e) # rest) w = cancel_tasks rest (cancel_task (task e) w)"

definition cancel_timer :: "string option \<Rightarrow> world \<Rightarrow> world \<times> bool" where
  "cancel_timer timer_id w =
     (case timer_id of
        None \<Rightarrow>
          (let w1 = cancel_tasks (timers w) w;
               w2 = w1\<lparr>timers := []\<rparr>
           in (w2, length (timers w2) > 0))
      | Some tid \<Rightarrow>
          (case map_of (timers w) tid of
             Some t \<Rightarrow>
               (let w1 = cancel_task (task t) w
                in (w1\<lparr>timers := AList.delete tid (timers w1)\<rparr>, True))
           | None \<Rightarrow> (w, False)))"

definition cancel_alarm :: "string option \<Rightarrow> world \<Rightarrow> world \<times> bool" where
  "cancel_alarm alarm_id w =
     (case alarm_id of
        None \<Rightarrow>
          (let w1 = cancel_tasks (alarms w) w;
               w2 = w1\<lparr>alarms := []\<rparr>
           in (w2, length (alarms w2) > 0))
      | Some aid \<Rightarrow>
          (case map_of (alarms w) aid of
             Some a \<Rightarrow>
               (let w1 = cancel_task (task a) w
                in (w1\<lparr>alarms := AList.delete aid (alarms w1)\<rparr>, True))
           | None \<Rightarrow> (w, False)))"

subsection \<open>Dates and times of day\<close>

text \<open>\<open>datetime.datetime.combine(date, datetime.time(hour, minute))\<close>.\<close>

definition combine :: "int \<Rightarrow> int \<Rightarrow> int \<Rightarrow> datetime" where
  "combine d h m =
     \<lparr>dt_day = d, dt_hour = h, dt_minute = m, dt_second = 0, dt_microsecond = 0\<rparr>"

text \<open>\<open>a < b\<close> on naive date-times: the fields are compared in order.\<close>

definition dt_less :: "datetime \<Rightarrow> datetime \<Rightarrow> bool" where
  "dt_less a b =
     (dt_day a < dt_day b \<or> (dt_day a = dt_day b \<and>
       (dt_hour a < dt_hour b \<or> (dt_hour a = dt_hour b \<and>
         (dt_minute a < dt_minute b \<or> (dt_minute a = dt_minute b \<and>
           (dt_second a < dt_second b \<or> (dt_second a = dt_second b \<and>
             dt_microsecond a < dt_microsecond b))))))))"

text \<open>\<open>(a - b).total_seconds()\<close>.\<close>

definition total_seconds :: "datetime \<Rightarrow> datetime \<Rightarrow> real" where
  "total_seconds a b =
     of_int ((dt_day a - dt_day b) * 86400 + (dt_hour a - dt_hour b) * 3600
             + (dt_minute a - dt_minute b) * 60 + (dt_second a - dt_second b))
     + of_int (dt_microsecond a - dt_microsecond b) / 1000000"

text \<open>\<open>datetime.time(hour, minute)\<close> raises ValueError outside these ranges.\<close>

definition valid_time :: "int \<Rightarrow> int \<Rightarrow> bool" where
  "valid_time h m = (0 \<le> h \<and> h \<le> 23 \<and> 0 \<le> m \<and> m \<le> 59)"

text \<open>
  \<open>add_alarm\<close> (lines 185-208); \<open>t\<close> is \<open>time.time()\<close> and \<open>now\<close> is
  \<open>datetime.datetime.now()\<close>.  Nothing is stored when \<open>datetime.time\<close> raises.
\<close>

definition add_alarm ::
  "int \<Rightarrow> int \<Rightarrow> int \<Rightarrow> string option \<Rightarrow> real \<Rightarrow> datetime \<Rightarrow> world \<Rightarrow> exn + world \<times> string" where
  "add_alarm h m off lbl t now w =
     (let alarm_id = ''alarm_'' @ str_int (py_int t) @ ''_'' @ str_int (int (length (alarms w)));
          target_date = dt_day now + off
      in if \<not> valid_time h m then Inl ValueError
         else
           (let target_time = combine target_date h m;
                target_time' =
                  (if dt_less target_time now \<and> off = 0 then combine (dt_day now + 1) h m
                   else target_time)
            in Inr (w\<lparr>alarms :=
                       AList.update alarm_id
                         \<lparr>label = lbl, task = None, hour = h, minute = m, day_offset = off,
                          time = target_time'\<rparr>
                         (alarms w)\<rparr>,
                    alarm_id)))"

text \<open>
  \<open>get_timers\<close> (lines 250-263).  The loop runs over the snapshot
  \<open>list(self.timers.items())\<close>; \<open>del self.timers[timer_id]\<close> raises KeyError when the
  key is no longer there.
\<close>

fun get_timers_loop ::
  "real \<Rightarrow> (string \<times> timer) list \<Rightarrow> (string \<times> timer) list \<Rightarrow> world
     \<Rightarrow> world \<times> (exn + (string \<times> timer) list)" where
  "get_timers_loop now [] active w = (w, Inr active)"
| "get_timers_loop now ((timer_id, t) # rest) active w =
     (if end_time t > now then get_timers_loop now rest (AList.update timer_id t active) w
      else
        (let w1 = cancel_task (task t) w
         in if map_of (timers w1) timer_id = None then (w1, Inl KeyError)
            else get_timers_loop now rest active
                   (w1\<lparr>timers := AList.delete timer_id (timers w1)\<rparr>)))"

definition get_timers :: "real \<Rightarrow> world \<Rightarrow> world \<times> (exn + (string \<times> timer) list)" where
  "get_timers now w = get_timers_loop now (timers w) [] w"

definition get_alarms :: "world \<Rightarrow> (string \<times> alarm) list" where
  "get_alarms w = alarms w"

subsection \<open>The firing callbacks\<close>

text \<open>\<open>hasattr(conn, 'websocket') and conn.websocket\<close>.\<close>

definition ws_truthy :: "conn \<Rightarrow> bool" where
  "ws_truthy c = (websocket c = Some True)"

text \<open>
  Lines 283-291 and 313-321, the same in both callbacks: send the message, then submit
  it to the chat method of the current mode.  An exception leaves the block at once.
\<close>

definition deliver :: "conn \<Rightarrow> notice \<Rightarrow> world \<Rightarrow> world \<times> exn option" where
  "deliver c message w =
     (if ws_truthy c then
        (if send_raises c then (w, Some Delivery_failed)
         else
           (let w1 = w\<lparr>outbox := outbox w @ [message]\<rparr>
            in if submit_raises c then (w1, Some Submit_failed)
               else (w1\<lparr>submitted := submitted w1 @
                          [(if use_function_call_mode c then Chat_with_function_calling else Chat,
                            message)]\<rparr>,
                     None)))
      else (w, None))"

text \<open>The body of the \<open>try\<close> of \<open>timer_callback\<close> (lines 272-295).\<close>

definition timer_callback_body ::
  "conn \<Rightarrow> string \<Rightarrow> string option \<Rightarrow> world \<Rightarrow> world \<times> exn option" where
  "timer_callback_body c timer_id lbl w =
     (case map_of (timers w) timer_id of
        None \<Rightarrow> (w, None)
      | Some t \<Rightarrow>
          (let message = (case lbl of
                            None \<Rightarrow> Timer_plain
                          | Some l \<Rightarrow> if l \<noteq> [] then Timer_labelled l else Timer_plain)
           in case deliver c message w of
                (w1, Some e) \<Rightarrow> (w1, Some e)
              | (w1, None) \<Rightarrow>
                  (w1\<lparr>timers := AList.delete timer_id (timers w1),
                      logs := logs w1 @ [Info_timer_fired timer_id message]\<rparr>,
                   None)))"

text \<open>
  \<open>timer_callback\<close> (lines 269-297): \<open>except Exception\<close> logs the error.  The second
  component is the exception that leaves the coroutine.
\<close>

definition timer_callback ::
  "conn \<Rightarrow> string \<Rightarrow> string option \<Rightarrow> world \<Rightarrow> world \<times> exn option" where
  "timer_callback c timer_id lbl w =
     (case timer_callback_body c timer_id lbl w of
        (w1, None) \<Rightarrow> (w1, None)
      | (w1, Some e) \<Rightarrow> (w1\<lparr>logs := logs w1 @ [Error_timer_callback e]\<rparr>, None))"

definition alarm_callback_body ::
  "conn \<Rightarrow> string \<Rightarrow> string option \<Rightarrow> world \<Rightarrow> world \<times> exn option" where
  "alarm_callback_body c alarm_id lbl w =
     (case map_of (alarms w) alarm_id of
        None \<Rightarrow> (w, None)
      | Some a \<Rightarrow>
          (let message = (case lbl of
                            None \<Rightarrow> Alarm_plain (hour a) (minute a)
                          | Some l \<Rightarrow> if l \<noteq> [] then Alarm_labelled l
                                      else Alarm_plain (hour a) (minute a))
           in case deliver c message w of
                (w1, Some e) \<Rightarrow> (w1, Some e)
              | (w1, None) \<Rightarrow>
                  (w1\<lparr>alarms := AList.delete alarm_id (alarms w1),
                      logs := logs w1 @ [Info_alarm_fired alarm_id message]\<rparr>,
                   None)))"

definition alarm_callback ::
  "conn \<Rightarrow> string \<Rightarrow> string option \<Rightarrow> world \<Rightarrow> world \<times> exn option" where
  "alarm_callback c alarm_id lbl w =
     (case alarm_callback_body c alarm_id lbl w of
        (w1, None) \<Rightarrow> (w1, None)
      | (w1, Some e) \<Rightarrow> (w1\<lparr>logs := logs w1 @ [Error_alarm_callback e]\<rparr>, None))"

subsection \<open>The event loop of the connection\<close>

text \<open>
  \<open>asyncio.run_coroutine_threadsafe(coro, loop)\<close> submits the coroutine to the loop,
  which runs it at its next iteration, and returns a new pending future.  It takes no
  delay.
\<close>

definition run_coroutine_threadsafe :: "coro \<Rightarrow> world \<Rightarrow> world \<times> handle" where
  "run_coroutine_threadsafe co w =
     (let h = next_handle w
      in (w\<lparr>futures := (futures w)(h := Pending), next_handle := Suc h,
            loop_ready := loop_ready w @ [(h, co)]\<rparr>,
          h))"

definition run_coro :: "conn \<Rightarrow> coro \<Rightarrow> world \<Rightarrow> world" where
  "run_coro c co w =
     (case co of
        Timer_coro timer_id lbl \<Rightarrow> fst (timer_callback c timer_id lbl w)
      | Alarm_coro alarm_id lbl \<Rightarrow> fst (alarm_callback c alarm_id lbl w))"

text \<open>
  One iteration of the loop: every submitted coroutine whose future has not been
  cancelled runs to its end (the callbacks never wait for a clock), and its future
  becomes finished.
\<close>

fun loop_run :: "conn \<Rightarrow> (handle \<times> coro) list \<Rightarrow> world \<Rightarrow> world" where
  "loop_run c [] w = w"
| "loop_run c ((h, co) # rest) w =
     (if futures w h = Cancelled then loop_run c rest w
      else
        (let w1 = run_coro c co w
         in loop_run c rest (w1\<lparr>futures := (futures w1)(h := Finished)\<rparr>)))"

definition loop_iteration :: "conn \<Rightarrow> world \<Rightarrow> world" where
  "loop_iteration c w = loop_run c (loop_ready w) (w\<lparr>loop_ready := []\<rparr>)"

subsection \<open>Formatting\<close>

text \<open>The texts \<open>format_time_duration\<close> returns (lines 329-347), one per return.\<close>

datatype duration_text =
    Seconds_text int                 \<comment> \<open>line 332\<close>
  | Minutes_text int                 \<comment> \<open>line 337\<close>
  | Minutes_seconds_text int int     \<comment> \<open>line 338\<close>
  | Hours_text int                   \<comment> \<open>line 344\<close>
  | Hours_minutes_text int int       \<comment> \<open>line 346\<close>
  | Hours_minutes_seconds_text int int int   \<comment> \<open>line 347\<close>

definition format_time_duration :: "int \<Rightarrow> duration_text" where
  "format_time_duration seconds =
     (if seconds < 60 then Seconds_text seconds
      else if seconds < 3600 then
        (let minutes = seconds div 60;
             seconds' = seconds mod 60
         in if seconds' = 0 then Minutes_text minutes
            else Minutes_seconds_text minutes seconds')
      else
        (let hours = seconds div 3600;
             minutes = (seconds mod 3600) div 60;
             seconds' = seconds mod 60
         in if minutes = 0 \<and> seconds' = 0 then Hours_text hours
            else if seconds' = 0 then Hours_minutes_text hours minutes
            else Hours_minutes_seconds_text hours minutes seconds'))"

text \<open>The texts \<open>format_day_text\<close> returns (lines 349-358).\<close>

datatype day_text = Today | Tomorrow | Day_after_tomorrow | Days_later int

definition format_day_text :: "int \<Rightarrow> day_text" where
  "format_day_text off =
     (if off = 0 then Today
      else if off = 1 then Tomorrow
      else if off = 2 then Day_after_tomorrow
      else Days_later off)"

subsection \<open>Responses\<close>

text \<open>The pieces \<open>cancel_timer_alarm\<close> appends to its message (lines 606-637).\<close>

datatype piece =
    Cancelled_one_timer          \<comment> \<open>line 608\<close>
  | Cancelled_all_timers nat     \<comment> \<open>line 610, with \<open>timer_count\<close>\<close>
  | No_running_timers            \<comment> \<open>line 612\<close>
  | Timer_not_found              \<comment> \<open>line 614\<close>
  | Cancelled_one_alarm          \<comment> \<open>line 627\<close>
  | Cancelled_all_alarms nat     \<comment> \<open>line 629, with \<open>alarm_count\<close>\<close>
  | Space                        \<comment> \<open>lines 632 and 636\<close>
  | No_alarms_set                \<comment> \<open>line 633\<close>
  | Alarm_not_found              \<comment> \<open>line 637\<close>

text \<open>
  A line of the listing of \<open>check_timers_alarms\<close>: its number, the remaining time,
  the label text and the end time (line 530); for an alarm its number, the day text,
  the hour, the minute and the label text (line 557).
\<close>

datatype timer_line = Timer_line nat duration_text string real

datatype alarm_line = Alarm_line nat day_text int int string

datatype listing =
    Timer_listing "timer_line list"   \<comment> \<open>lines 519-532\<close>
  | No_timers_listing                 \<comment> \<open>line 534\<close>
  | Alarm_listing "alarm_line list"   \<comment> \<open>lines 544-559\<close>
  | No_alarms_listing                 \<comment> \<open>line 561\<close>

datatype summary = Timer_count nat | Alarm_count nat   \<comment> \<open>lines 537 and 564\<close>

datatype result_text =
    Invalid_duration                  \<comment> \<open>line 368\<close>
  | Timer_is_set duration_text        \<comment> \<open>line 413\<close>
  | Invalid_hour                      \<comment> \<open>line 433\<close>
  | Invalid_minute                    \<comment> \<open>line 440\<close>
  | Invalid_day_offset                \<comment> \<open>line 447\<close>
  | Alarm_is_set day_text int int     \<comment> \<open>line 493\<close>
  | Nothing_found                     \<comment> \<open>lines 570 and 648\<close>
  | Summary "summary list"            \<comment> \<open>line 578\<close>
  | Cancel_succeeded                  \<comment> \<open>line 642\<close>
  | Error_text exn                    \<comment> \<open>lines 421, 501, 586 and 656\<close>

text \<open>
  The response texts.  \<open>Timer_filled\<close> and \<open>Alarm_filled\<close> are the caller's template
  after the chain of \<open>replace\<close> calls, kept with the values put in: the duration text,
  the instant whose clock time is printed and the label text for a timer (lines
  403-409); the hour, the minute, the day text and the label text for an alarm (lines
  483-489).
\<close>

datatype response_text =
    Duration_must_be_positive         \<comment> \<open>line 369\<close>
  | Hour_out_of_range                 \<comment> \<open>line 434\<close>
  | Minute_out_of_range               \<comment> \<open>line 441\<close>
  | Day_offset_negative               \<comment> \<open>line 448\<close>
  | Timer_filled string duration_text real string
  | Alarm_filled string int int day_text string
  | Nothing_is_set                    \<comment> \<open>line 571\<close>
  | Listings "listing list"           \<comment> \<open>line 574\<close>
  | Pieces "piece list"               \<comment> \<open>lines 643 and 649\<close>
  | Caller_failure_text string        \<comment> \<open>\<open>response_failure\<close>\<close>

datatype action = RESPONSE

record action_response =
  action :: action
  result :: result_text
  response :: response_text

subsection \<open>Tool entry points\<close>

text \<open>The text put in place of \<open>{label}\<close> (lines 405-409 and 485-489).\<close>

definition label_or_empty :: "string option \<Rightarrow> string" where
  "label_or_empty lbl = (if truthy lbl then (case lbl of Some l \<Rightarrow> l | None \<Rightarrow> []) else [])"

text \<open>The body of the \<open>try\<close> of \<open>set_timer\<close> (lines 364-415).\<close>

definition set_timer_body ::
  "conn \<Rightarrow> int \<Rightarrow> string \<Rightarrow> string \<Rightarrow> string option \<Rightarrow> real \<Rightarrow> world
     \<Rightarrow> world \<times> (exn + action_response)" where
  "set_timer_body c dur response_success response_failure lbl now w =
     (if dur \<le> 0 then
        (w, Inr \<lparr>action = RESPONSE, result = Invalid_duration,
                 response = Duration_must_be_positive\<rparr>)
      else
        (let (w1, timer_id) = add_timer dur lbl now w;
             end = now + of_int dur;
             duration_text = format_time_duration dur;
             (w2, h) = run_coroutine_threadsafe (Timer_coro timer_id lbl) w1;
             w3 = w2\<lparr>sleepers := sleepers w2 @ [of_int dur]\<rparr>
         in case map_of (timers w3) timer_id of
              None \<Rightarrow> (w3, Inl KeyError)
            | Some t \<Rightarrow>
                (let w4 = w3\<lparr>timers := AList.update timer_id (t\<lparr>task := Some h\<rparr>) (timers w3)\<rparr>;
                     w5 = w4\<lparr>logs := logs w4 @ [Info_timer_set timer_id]\<rparr>
                 in (w5, Inr \<lparr>action = RESPONSE, result = Timer_is_set duration_text,
                              response = Timer_filled response_success duration_text end
                                           (label_or_empty lbl)\<rparr>))))"

text \<open>\<open>set_timer\<close> (lines 361-423), with its \<open>except Exception\<close>.\<close>

definition set_timer ::
  "conn \<Rightarrow> int \<Rightarrow> string \<Rightarrow> string \<Rightarrow> string option \<Rightarrow> real \<Rightarrow> world
     \<Rightarrow> world \<times> action_response" where
  "set_timer c dur response_success response_failure lbl now w =
     (case set_timer_body c dur response_success response_failure lbl now w of
        (w1, Inr r) \<Rightarrow> (w1, r)
      | (w1, Inl e) \<Rightarrow>
          (w1\<lparr>logs := logs w1 @ [Error_set_timer e]\<rparr>,
           \<lparr>action = RESPONSE, result = Error_text e,
            response = Caller_failure_text response_failure\<rparr>))"

text \<open>
  The body of the \<open>try\<close> of \<open>set_alarm\<close> (lines 429-495); \<open>t\<close> is \<open>time.time()\<close> and
  \<open>now\<close> is \<open>datetime.datetime.now()\<close>.
\<close>

definition set_alarm_body ::
  "conn \<Rightarrow> int \<Rightarrow> int \<Rightarrow> string \<Rightarrow> string \<Rightarrow> int \<Rightarrow> string option \<Rightarrow> real \<Rightarrow> datetime
     \<Rightarrow> world \<Rightarrow> world \<times> (exn + action_response)" where
  "set_alarm_body c h m response_success response_failure off lbl t now w =
     (if \<not> (0 \<le> h \<and> h \<le> 23) then
        (w, Inr \<lparr>action = RESPONSE, result = Invalid_hour, response = Hour_out_of_range\<rparr>)
      else if \<not> (0 \<le> m \<and> m \<le> 59) then
        (w, Inr \<lparr>action = RESPONSE, result = Invalid_minute, response = Minute_out_of_range\<rparr>)
      else if off < 0 then
        (w, Inr \<lparr>action = RESPONSE, result = Invalid_day_offset,
                 response = Day_offset_negative\<rparr>)
      else
        (case add_alarm h m off lbl t now w of
           Inl e \<Rightarrow> (w, Inl e)
         | Inr (w1, alarm_id) \<Rightarrow>
             (case map_of (alarms w1) alarm_id of
                None \<Rightarrow> (w1, Inl KeyError)
              | Some a \<Rightarrow>
                  (let time_diff = total_seconds (time a) now;
                       (w2, fh) = run_coroutine_threadsafe (Alarm_coro alarm_id lbl) w1;
                       w3 = w2\<lparr>sleepers := sleepers w2 @ [time_diff]\<rparr>
                   in case map_of (alarms w3) alarm_id of
                        None \<Rightarrow> (w3, Inl KeyError)
                      | Some a' \<Rightarrow>
                          (let w4 = w3\<lparr>alarms :=
                                        AList.update alarm_id (a'\<lparr>task := Some fh\<rparr>) (alarms w3)\<rparr>;
                               day_str = format_day_text off;
                               w5 = w4\<lparr>logs := logs w4 @ [Info_alarm_set alarm_id]\<rparr>
                           in (w5, Inr \<lparr>action = RESPONSE, result = Alarm_is_set day_str h m,
                                        response = Alarm_filled response_success h m day_str
                                                     (label_or_empty lbl)\<rparr>))))))"

definition set_alarm ::
  "conn \<Rightarrow> int \<Rightarrow> int \<Rightarrow> string \<Rightarrow> string \<Rightarrow> int \<Rightarrow> string option \<Rightarrow> real \<Rightarrow> datetime
     \<Rightarrow> world \<Rightarrow> world \<times> action_response" where
  "set_alarm c h m response_success response_failure off lbl t now w =
     (case set_alarm_body c h m response_success response_failure off lbl t now w of
        (w1, Inr r) \<Rightarrow> (w1, r)
      | (w1, Inl e) \<Rightarrow>
          (w1\<lparr>logs := logs w1 @ [Error_set_alarm e]\<rparr>,
           \<lparr>action = RESPONSE, result = Error_text e,
            response = Caller_failure_text response_failure\<rparr>))"

text \<open>The label text of a listing line (lines 529 and 555).\<close>

definition label_text :: "string option \<Rightarrow> string" where
  "label_text lbl =
     (if truthy lbl then '' ('' @ (case lbl of Some l \<Rightarrow> l | None \<Rightarrow> []) @ '')'' else [])"

text \<open>
  The loop of lines 521-530 over \<open>enumerate(active_timers.items(), 1)\<close>; \<open>later\<close> is
  the reading of \<open>time.time()\<close> in the loop, after the one \<open>get_timers\<close> took.
\<close>

fun timer_lines :: "real \<Rightarrow> nat \<Rightarrow> (string \<times> timer) list \<Rightarrow> timer_line list" where
  "timer_lines later i [] = []"
| "timer_lines later i ((timer_id, t) # rest) =
     (let remaining = end_time t - later
      in if remaining \<le> 0 then timer_lines later (Suc i) rest
         else Timer_line i (format_time_duration (py_int remaining)) (label_text (label t))
                (end_time t)
              # timer_lines later (Suc i) rest)"

text \<open>The loop of lines 546-557.\<close>

fun alarm_lines :: "datetime \<Rightarrow> nat \<Rightarrow> (string \<times> alarm) list \<Rightarrow> alarm_line list" where
  "alarm_lines now i [] = []"
| "alarm_lines now i ((alarm_id, a) # rest) =
     (let days_diff = dt_day (time a) - dt_day now
      in Alarm_line i (format_day_text days_diff) (hour a) (minute a) (label_text (label a))
         # alarm_lines now (Suc i) rest)"

text \<open>Lines 514-537: the timer part of the listing and of the summary.\<close>

definition check_timer_part :: "real \<Rightarrow> real \<Rightarrow> world \<Rightarrow> world \<times> (exn + listing \<times> summary)" where
  "check_timer_part now later w =
     (case get_timers now w of
        (w1, Inl e) \<Rightarrow> (w1, Inl e)
      | (w1, Inr active_timers) \<Rightarrow>
          (w1, Inr (if active_timers \<noteq> [] then Timer_listing (timer_lines later 1 active_timers)
                    else No_timers_listing,
                    Timer_count (length active_timers))))"

text \<open>Lines 539-564: the alarm part.\<close>

definition check_alarm_part :: "datetime \<Rightarrow> world \<Rightarrow> listing \<times> summary" where
  "check_alarm_part dnow w =
     (let al = get_alarms w
      in (if al \<noteq> [] then Alarm_listing (alarm_lines dnow 1 al) else No_alarms_listing,
          Alarm_count (length al)))"

text \<open>The body of the \<open>try\<close> of \<open>check_timers_alarms\<close> (lines 509-580).\<close>

definition check_timers_alarms_body ::
  "conn \<Rightarrow> string \<Rightarrow> string \<Rightarrow> string \<Rightarrow> real \<Rightarrow> real \<Rightarrow> datetime \<Rightarrow> world
     \<Rightarrow> world \<times> (exn + action_response)" where
  "check_timers_alarms_body c check_type response_success response_failure now later dnow w =
     (case (if check_type = ''timer'' \<or> check_type = ''all'' then
              (case check_timer_part now later w of
                 (w1, Inl e) \<Rightarrow> (w1, Inl e)
               | (w1, Inr (l, s)) \<Rightarrow> (w1, Inr ([l], [s])))
            else (w, Inr ([], []))) of
        (w1, Inl e) \<Rightarrow> (w1, Inl e)
      | (w1, Inr (ls, ss)) \<Rightarrow>
          (let (ls', ss') =
                 (if check_type = ''alarm'' \<or> check_type = ''all'' then
                    (let (l, s) = check_alarm_part dnow w1 in (ls @ [l], ss @ [s]))
                  else (ls, ss))
           in if ls' = [] then
                (w1, Inr \<lparr>action = RESPONSE, result = Nothing_found, response = Nothing_is_set\<rparr>)
              else
                (w1, Inr \<lparr>action = RESPONSE, result = Summary ss', response = Listings ls'\<rparr>)))"

definition check_timers_alarms ::
  "conn \<Rightarrow> string \<Rightarrow> string \<Rightarrow> string \<Rightarrow> real \<Rightarrow> real \<Rightarrow> datetime \<Rightarrow> world
     \<Rightarrow> world \<times> action_response" where
  "check_timers_alarms c check_type response_success response_failure now later dnow w =
     (case check_timers_alarms_body c check_type response_success response_failure now later
             dnow w of
        (w1, Inr r) \<Rightarrow> (w1, r)
      | (w1, Inl e) \<Rightarrow>
          (w1\<lparr>logs := logs w1 @ [Error_check e]\<rparr>,
           \<lparr>action = RESPONSE, result = Error_text e,
            response = Caller_failure_text response_failure\<rparr>))"

text \<open>Lines 598-614: the timer part of \<open>cancel_timer_alarm\<close>.\<close>

definition cancel_timer_part ::
  "string option \<Rightarrow> real \<Rightarrow> world \<Rightarrow> world \<times> (exn + bool \<times> piece list)" where
  "cancel_timer_part timer_id now w =
     (case get_timers now w of
        (w1, Inl e) \<Rightarrow> (w1, Inl e)
      | (w1, Inr active_timers) \<Rightarrow>
          (let timer_count = length active_timers;
               (w2, res) = cancel_timer timer_id w1
           in (w2, Inr (res,
                 if res then
                   (if truthy timer_id then [Cancelled_one_timer]
                    else [Cancelled_all_timers timer_count])
                 else if timer_count = 0 then [No_running_timers]
                 else [Timer_not_found]))))"

text \<open>Lines 616-637: the alarm part; \<open>message\<close> is the text built so far.\<close>

definition cancel_alarm_part ::
  "string option \<Rightarrow> piece list \<Rightarrow> world \<Rightarrow> world \<times> bool \<times> piece list" where
  "cancel_alarm_part alarm_id message w =
     (let alarm_count = length (get_alarms w);
          (w1, alarm_result) = cancel_alarm alarm_id w
      in (w1, alarm_result,
          if alarm_result then
            (if truthy alarm_id then message @ [Cancelled_one_alarm]
             else message @ [Cancelled_all_alarms alarm_count])
          else if alarm_count = 0 then
            (if message \<noteq> [] then message @ [Space] else message) @ [No_alarms_set]
          else
            (if message \<noteq> [] then message @ [Space] else message) @ [Alarm_not_found]))"

text \<open>The body of the \<open>try\<close> of \<open>cancel_timer_alarm\<close> (lines 594-650).\<close>

definition cancel_timer_alarm_body ::
  "conn \<Rightarrow> string \<Rightarrow> string \<Rightarrow> string \<Rightarrow> string option \<Rightarrow> string option \<Rightarrow> real \<Rightarrow> world
     \<Rightarrow> world \<times> (exn + action_response)" where
  "cancel_timer_alarm_body c cancel_type response_success response_failure timer_id alarm_id
     now w =
     (case (if cancel_type = ''timer'' \<or> cancel_type = ''all'' then cancel_timer_part timer_id now w
            else (w, Inr (False, []))) of
        (w1, Inl e) \<Rightarrow> (w1, Inl e)
      | (w1, Inr (res, message)) \<Rightarrow>
          (let (w2, res', message') =
                 (if cancel_type = ''alarm'' \<or> cancel_type = ''all'' then
                    (let (w2, alarm_result, message') = cancel_alarm_part alarm_id message w1
                     in (w2, res \<or> alarm_result, message'))
                  else (w1, res, message))
           in if res' then
                (w2, Inr \<lparr>action = RESPONSE, result = Cancel_succeeded,
                          response = Pieces message'\<rparr>)
              else
                (w2, Inr \<lparr>action = RESPONSE, result = Nothing_found,
                          response = Pieces message'\<rparr>)))"

definition cancel_timer_alarm ::
  "conn \<Rightarrow> string \<Rightarrow> string \<Rightarrow> string \<Rightarrow> string option \<Rightarrow> string option \<Rightarrow> real \<Rightarrow> world
     \<Rightarrow> world \<times> action_response" where
  "cancel_timer_alarm c cancel_type response_success response_failure timer_id alarm_id now w =
     (case cancel_timer_alarm_body c cancel_type response_success response_failure timer_id
             alarm_id now w of
        (w1, Inr r) \<Rightarrow> (w1, r)
      | (w1, Inl e) \<Rightarrow>
          (w1\<lparr>logs := logs w1 @ [Error_cancel e]\<rparr>,
           \<lparr>action = RESPONSE, result = Error_text e,
            response = Caller_failure_text response_failure\<rparr>))"

subsection \<open>Example values\<close>

text \<open>
  A connection with an open websocket on which sending works, one on which
  \<open>send_stt_message\<close> raises, and one whose \<open>websocket\<close> attribute is \<open>None\<close>.
\<close>

definition live_conn :: conn where
  "live_conn =
     \<lparr>websocket = Some True, use_function_call_mode = False, send_raises = False,
      submit_raises = False\<rparr>"

definition closed_conn :: conn where
  "closed_conn =
     \<lparr>websocket = Some True, use_function_call_mode = False, send_raises = True,
      submit_raises = False\<rparr>"

definition detached_conn :: conn where
  "detached_conn =
     \<lparr>websocket = Some False, use_function_call_mode = True, send_raises = False,
      submit_raises = False\<rparr>"

definition tea_timer :: timer where
  "tea_timer =
     \<lparr>label = Some ''tea'', task = Some 0, duration = 60, start_time = 1000, end_time = 1060\<rparr>"

definition egg_timer :: timer where
  "egg_timer =
     \<lparr>label = None, task = Some 1, duration = 120, start_time = 1000, end_time = 1120\<rparr>"

definition wake_alarm :: alarm where
  "wake_alarm =
     \<lparr>label = None, task = Some 2, hour = 7, minute = 0, day_offset = 0,
      time = combine 101 7 0\<rparr>"

text \<open>Day 100, 08:00:00.\<close>

definition eight_oclock :: datetime where
  "eight_oclock =
     \<lparr>dt_day = 100, dt_hour = 8, dt_minute = 0, dt_second = 0, dt_microsecond = 0\<rparr>"

text \<open>
  The world after \<open>set_timer(60, label='tea')\<close>, \<open>set_timer(120)\<close> and
  \<open>set_alarm(7, 0)\<close>, all called within second 1000 at 08:00 of day 100, before the
  event loop has run (lemma \<open>busy_world_reached\<close>).
\<close>

definition busy_world :: world where
  "busy_world =
     \<lparr>timers = [(''timer_1000_0'', tea_timer), (''timer_1000_1'', egg_timer)],
      alarms = [(''alarm_1000_0'', wake_alarm)],
      futures = (\<lambda>_. Pending), next_handle = 3,
      loop_ready =
        [(0, Timer_coro ''timer_1000_0'' (Some ''tea'')), (1, Timer_coro ''timer_1000_1'' None),
         (2, Alarm_coro ''alarm_1000_0'' None)],
      sleepers = [60, 120, 82800], outbox = [], submitted = [],
      logs =
        [Info_timer_set ''timer_1000_0'', Info_timer_set ''timer_1000_1'',
         Info_alarm_set ''alarm_1000_0'']\<rparr>"

subsection \<open>Notions used in the statements\<close>

text \<open>The test of line 255: the timer has not reached its end time.\<close>

definition unexpired :: "real \<Rightarrow> string \<times> timer \<Rightarrow> bool" where
  "unexpired now p = (now < end_time (snd p))"

text \<open>
  The futures after the scan of \<open>get_timers\<close> over the timers \<open>ts\<close>: the pending
  ones that belong to an expired timer are cancelled (lines 259-260), the others are
  as before.
\<close>

definition pruned_futures ::
  "real \<Rightarrow> (string \<times> timer) list \<Rightarrow> (handle \<Rightarrow> fut_state) \<Rightarrow> handle \<Rightarrow> fut_state" where
  "pruned_futures now ts f h =
     (if f h = Pending \<and> Some h \<in> set (map (task \<circ> snd) (filter (\<lambda>p. \<not> unexpired now p) ts))
      then Cancelled else f h)"

text \<open>The end time a line of the timer listing prints.\<close>

fun line_end :: "timer_line \<Rightarrow> real" where
  "line_end (Timer_line i d l e) = e"

section \<open>Basic facts\<close>

lemmas example_defs =
  live_conn_def closed_conn_def detached_conn_def tea_timer_def egg_timer_def wake_alarm_def
  eight_oclock_def busy_world_def empty_world_def

lemma str_int_examples:
  "str_int 1000 = ''1000''" "str_int 0 = ''0''" "str_int 1 = ''1''" "str_int 2 = ''2''"
  by code_simp+

lemma py_int_examples:
  "py_int 1000 = 1000" "py_int (4001 / 4) = 1000" "py_int (2001 / 2) = 1000"
  by code_simp+

lemma delete_filter: "AList.delete k xs = filter (\<lambda>p. fst p \<noteq> k) xs"
  by (induction xs) auto

lemma cancel_task_fields [simp]:
  "timers (cancel_task t w) = timers w"
  "alarms (cancel_task t w) = alarms w"
  "next_handle (cancel_task t w) = next_handle w"
  "loop_ready (cancel_task t w) = loop_ready w"
  "sleepers (cancel_task t w) = sleepers w"
  "outbox (cancel_task t w) = outbox w"
  "submitted (cancel_task t w) = submitted w"
  "logs (cancel_task t w) = logs w"
  by (simp_all add: cancel_task_def fut_cancel_def split: option.splits)

lemma cancel_task_futures:
  "futures (cancel_task t w) h =
     (if t = Some h \<and> futures w h = Pending then Cancelled else futures w h)"
  by (simp add: cancel_task_def fut_cancel_def fut_done_def split: option.splits)

lemma cancel_tasks_fields [simp]:
  "timers (cancel_tasks es w) = timers w"
  "alarms (cancel_tasks es w) = alarms w"
  "next_handle (cancel_tasks es w) = next_handle w"
  "loop_ready (cancel_tasks es w) = loop_ready w"
  "sleepers (cancel_tasks es w) = sleepers w"
  "outbox (cancel_tasks es w) = outbox w"
  "submitted (cancel_tasks es w) = submitted w"
  "logs (cancel_tasks es w) = logs w"
  by (induction es w rule: cancel_tasks.induct; simp)+

lemma update_fresh: "k \<notin> fst ` set xs \<Longrightarrow> AList.update k v xs = xs @ [(k, v)]"
  by (induction xs) auto

lemma cancel_task_eq:
  "cancel_task t w =
     w\<lparr>futures := (\<lambda>h. if t = Some h \<and> futures w h = Pending then Cancelled else futures w h)\<rparr>"
  by (cases t) (auto simp: cancel_task_def fut_cancel_def fut_done_def fun_eq_iff)

lemma filter_fresh: "k \<notin> fst ` set xs \<Longrightarrow> filter (\<lambda>p. fst p \<noteq> k) xs = xs"
  by (induction xs) auto

lemma delete_middle:
  "distinct (map fst (xs @ (k, v) # ys)) \<Longrightarrow> AList.delete k (xs @ (k, v) # ys) = xs @ ys"
  by (simp add: delete_filter filter_fresh)

lemma map_of_middle: "map_of (xs @ (k, v) # ys) k \<noteq> None"
  by (simp add: map_of_eq_None_iff)

lemma get_timers_loop_inv:
  "distinct (map fst (act @ rest)) \<Longrightarrow> timers w = act @ rest \<Longrightarrow>
   get_timers_loop now rest act w =
     (w\<lparr>timers := act @ filter (unexpired now) rest,
        futures := pruned_futures now rest (futures w)\<rparr>,
      Inr (act @ filter (unexpired now) rest))"
proof (induction rest arbitrary: act w)
  case Nil
  then show ?case by (simp add: pruned_futures_def)
next
  case (Cons p rest)
  obtain k t where p: "p = (k, t)" by (cases p)
  show ?case
  proof (cases "now < end_time t")
    case True
    from Cons.prems p have fresh: "k \<notin> fst ` set act" by auto
    have d: "distinct (map fst ((act @ [(k, t)]) @ rest))" using Cons.prems p by simp
    have tw: "timers w = (act @ [(k, t)]) @ rest" using Cons.prems p by simp
    have pf: "pruned_futures now ((k, t) # rest) (futures w) = pruned_futures now rest (futures w)"
      using True by (simp add: pruned_futures_def unexpired_def fun_eq_iff)
    show ?thesis
      using True Cons.IH [OF d tw] pf
      by (simp add: p update_fresh [OF fresh] unexpired_def)
  next
    case False
    let ?w1 = "cancel_task (task t) w"
    let ?w2 = "?w1\<lparr>timers := AList.delete k (timers ?w1)\<rparr>"
    have present: "map_of (timers ?w1) k \<noteq> None"
      using Cons.prems p by (simp add: map_of_middle)
    have del: "AList.delete k (timers ?w1) = act @ rest"
      using Cons.prems p by (simp add: delete_middle)
    have d: "distinct (map fst (act @ rest))" using Cons.prems p by simp
    have tw: "timers ?w2 = act @ rest" using del by simp
    have pf: "pruned_futures now rest (futures ?w2) = pruned_futures now ((k, t) # rest) (futures w)"
      using False by (auto simp: pruned_futures_def unexpired_def fun_eq_iff cancel_task_futures)
    have "get_timers_loop now (p # rest) act w = get_timers_loop now rest act ?w2"
      using False present by (auto simp: p Let_def)
    also have "\<dots> = (?w2\<lparr>timers := act @ filter (unexpired now) rest,
                          futures := pruned_futures now rest (futures ?w2)\<rparr>,
                       Inr (act @ filter (unexpired now) rest))"
      by (rule Cons.IH [OF d tw])
    also have "\<dots> = (w\<lparr>timers := act @ filter (unexpired now) (p # rest),
                          futures := pruned_futures now (p # rest) (futures w)\<rparr>,
                       Inr (act @ filter (unexpired now) (p # rest)))"
      using False pf by (simp add: p unexpired_def cancel_task_eq)
    finally show ?thesis .
  qed
qed

lemma get_timers_eq:
  "distinct (map fst (timers w)) \<Longrightarrow>
   get_timers now w =
     (w\<lparr>timers := filter (unexpired now) (timers w),
        futures := pruned_futures now (timers w) (futures w)\<rparr>,
      Inr (filter (unexpired now) (timers w)))"
  using get_timers_loop_inv [of "[]" "timers w" w now] by (simp add: get_timers_def)

lemma timer_lines_unexpired:
  "row \<in> set (timer_lines later i xs) \<Longrightarrow>
   later < line_end row \<and> (\<exists>p \<in> set xs. line_end row = end_time (snd p))"
  by (induction later i xs rule: timer_lines.induct) (auto simp: Let_def split: if_splits)

lemma check_timers_eq:
  "distinct (map fst (timers w)) \<Longrightarrow>
   check_timers_alarms c ''timer'' rs rf now later dnow w =
     (w\<lparr>timers := filter (unexpired now) (timers w),
        futures := pruned_futures now (timers w) (futures w)\<rparr>,
      \<lparr>action = RESPONSE,
       result = Summary [Timer_count (length (filter (unexpired now) (timers w)))],
       response = Listings [if filter (unexpired now) (timers w) \<noteq> []
                            then Timer_listing (timer_lines later 1 (filter (unexpired now) (timers w)))
                            else No_timers_listing]\<rparr>)"
  by (simp add: check_timers_alarms_def check_timers_alarms_body_def check_timer_part_def
      get_timers_eq)

lemma cancel_timer_some_timers:
  "timers (fst (cancel_timer (Some tid) w)) = filter (\<lambda>p. fst p \<noteq> tid) (timers w)"
  by (auto simp: cancel_timer_def delete_filter [symmetric] map_of_eq_None_iff
      split: option.splits)

lemma cancel_alarm_some_alarms:
  "alarms (fst (cancel_alarm (Some aid) w)) = filter (\<lambda>p. fst p \<noteq> aid) (alarms w)"
  by (auto simp: cancel_alarm_def delete_filter [symmetric] map_of_eq_None_iff
      split: option.splits)

lemma cancel_timer_alarms [simp]: "alarms (fst (cancel_timer x w)) = alarms w"
  by (simp add: cancel_timer_def Let_def split: option.splits)

lemma cancel_alarm_timers [simp]: "timers (fst (cancel_alarm x w)) = timers w"
  by (simp add: cancel_alarm_def Let_def split: option.splits)


lemma cancel_timer_part_world:
  "distinct (map fst (timers w)) \<Longrightarrow>
   \<exists>r. cancel_timer_part x now w =
     (fst (cancel_timer x (w\<lparr>timers := filter (unexpired now) (timers w),
               futures := pruned_futures now (timers w) (futures w)\<rparr>)), Inr r)"
  by (simp add: cancel_timer_part_def get_timers_eq case_prod_beta Let_def)

lemma cancel_alarm_part_world:
  "fst (cancel_alarm_part x msg w) = fst (cancel_alarm x w)"
  by (simp add: cancel_alarm_part_def case_prod_beta Let_def)

lemma cancel_timer_alarm_all_world:
  "distinct (map fst (timers w)) \<Longrightarrow>
   fst (cancel_timer_alarm c ''all'' rs rf x y now w) =
     fst (cancel_alarm y (fst (cancel_timer x (w\<lparr>timers := filter (unexpired now) (timers w),
               futures := pruned_futures now (timers w) (futures w)\<rparr>))))"
proof -
  assume d: "distinct (map fst (timers w))"
  from cancel_timer_part_world [OF d, of x now] obtain r where
    r: "cancel_timer_part x now w =
     (fst (cancel_timer x (w\<lparr>timers := filter (unexpired now) (timers w),
               futures := pruned_futures now (timers w) (futures w)\<rparr>)), Inr r)" by blast
  obtain res msg where rm: "r = (res, msg)" by (cases r)
  have "fst (cancel_timer_alarm_body c ''all'' rs rf x y now w) =
     fst (cancel_alarm_part y msg (fst (cancel_timer x (w\<lparr>timers := filter (unexpired now) (timers w),
               futures := pruned_futures now (timers w) (futures w)\<rparr>))))"
    unfolding cancel_timer_alarm_body_def r rm
    by (simp add: case_prod_beta)
  moreover have "\<exists>q. snd (cancel_timer_alarm_body c ''all'' rs rf x y now w) = Inr q"
    unfolding cancel_timer_alarm_body_def r rm
    by (simp add: case_prod_beta)
  ultimately show ?thesis
    unfolding cancel_timer_alarm_def
    by (cases "cancel_timer_alarm_body c ''all'' rs rf x y now w")
      (auto simp: cancel_alarm_part_world)
qed

text \<open>
  The keys of the timer dict stay distinct, as those of a Python dict are: this is the
  hypothesis of the statements about \<open>get_timers\<close>.
\<close>

lemma distinct_keys_preserved:
  "distinct (map fst (timers w)) \<Longrightarrow> distinct (map fst (timers (fst (set_timer c dur rs rf lbl now w))))"
  "distinct (map fst (timers w)) \<Longrightarrow> distinct (map fst (timers (fst (cancel_timer x w))))"
  "distinct (map fst (timers w)) \<Longrightarrow> distinct (map fst (timers (fst (timer_callback c tid lbl w))))"
  "distinct (map fst (timers w)) \<Longrightarrow> distinct (map fst (timers (fst (get_timers now w))))"
     apply (simp add: set_timer_def set_timer_body_def add_timer_def run_coroutine_threadsafe_def
      Let_def AList.update_conv' AList.distinct_update)
    apply (simp add: cancel_timer_def Let_def AList.distinct_delete split: option.splits)
   apply (simp add: timer_callback_def timer_callback_body_def deliver_def Let_def
      AList.distinct_delete split: option.splits)
  apply (simp add: get_timers_eq distinct_map_filter)
  done

lemma distinct_keys_empty: "distinct (map fst (timers empty_world))"
  by (simp add: empty_world_def)

text \<open>The example world is what three calls of the entry points leave behind.\<close>

lemma busy_world_reached:
  "fst (set_alarm live_conn 7 0 ''ok'' ''failed'' 0 None 1000 eight_oclock
     (fst (set_timer live_conn 120 ''ok'' ''failed'' None 1000
        (fst (set_timer live_conn 60 ''ok'' ''failed'' (Some ''tea'') 1000 empty_world)))))
   = busy_world"
  by (simp add: Let_def set_alarm_def set_alarm_body_def set_timer_def set_timer_body_def
      add_timer_def add_alarm_def run_coroutine_threadsafe_def example_defs str_int_examples
      py_int_examples valid_time_def combine_def dt_less_def total_seconds_def fun_eq_iff)

section \<open>Cancelling everything (C1)\<close>

text \<open>
  With no id, \<open>cancel_timer\<close> and \<open>cancel_alarm\<close> empty their dict and then return
  \<open>len(d) > 0\<close> of the dict they have just cleared (lines 217-218 and 237-238): the
  result is False for every registry.
\<close>

lemma cancel_all_returns_False:
  "snd (cancel_timer None w) = False \<and> timers (fst (cancel_timer None w)) = [] \<and>
   snd (cancel_alarm None w) = False \<and> alarms (fst (cancel_alarm None w)) = []"
  by (simp add: cancel_timer_def cancel_alarm_def Let_def)

text \<open>
  Claim C1: cancelling with no id removes every entry of the kind and returns whether
  there were any, so that \<open>cancel_timer_alarm('all')\<close> on two timers and one alarm
  removes the three and reports the counts 2 and 1, and a second call reports that
  none were active.

  The code at that input: the three entries are removed, but both cancel operations
  return False on their non-empty dicts, and the tool answers "no timer or alarm
  found" with the texts "the given timer was not found" and "the given alarm was not
  found" (lines 614 and 637) in place of the counts.  The second call answers as the
  claim says.
\<close>

theorem cancel_all_reports_not_found:
  "timers busy_world \<noteq> [] \<and> alarms busy_world \<noteq> [] \<and>
   snd (cancel_timer None busy_world) = False \<and>
   snd (cancel_alarm None busy_world) = False \<and>
   timers (fst (cancel_timer_alarm live_conn ''all'' ''ok'' ''failed'' None None 1001
                  busy_world)) = [] \<and>
   alarms (fst (cancel_timer_alarm live_conn ''all'' ''ok'' ''failed'' None None 1001
                  busy_world)) = [] \<and>
   snd (cancel_timer_alarm live_conn ''all'' ''ok'' ''failed'' None None 1001 busy_world) =
     \<lparr>action = RESPONSE, result = Nothing_found,
      response = Pieces [Timer_not_found, Space, Alarm_not_found]\<rparr> \<and>
   snd (cancel_timer_alarm live_conn ''all'' ''ok'' ''failed'' None None 1001
          (fst (cancel_timer_alarm live_conn ''all'' ''ok'' ''failed'' None None 1001
                  busy_world))) =
     \<lparr>action = RESPONSE, result = Nothing_found,
      response = Pieces [No_running_timers, Space, No_alarms_set]\<rparr>"
  by (simp add: cancel_timer_alarm_def cancel_timer_alarm_body_def cancel_timer_part_def
      cancel_alarm_part_def get_timers_def get_alarms_def cancel_timer_def cancel_alarm_def
      truthy_def Let_def example_defs)

section \<open>Cancelling by id (C8)\<close>

text \<open>
  Claim C8: cancelling a timer or an alarm by an id that is in the registry removes
  that entry, leaves every other entry as it was and returns True; cancelling an id
  that is not there (never created, already cancelled or already fired) changes
  nothing and returns False.  Neither path can raise: the lookup and the \<open>del\<close> are
  guarded by \<open>id in d\<close> (lines 221 and 241).

  The entries that stay are the same dicts in the same order, the other kind is not
  touched, and no future but the one of the removed entry changes.
\<close>

theorem cancel_by_id_frame:
  "(map_of (timers w) tid = Some t \<longrightarrow>
      snd (cancel_timer (Some tid) w) = True \<and>
      timers (fst (cancel_timer (Some tid) w)) = filter (\<lambda>p. fst p \<noteq> tid) (timers w) \<and>
      alarms (fst (cancel_timer (Some tid) w)) = alarms w \<and>
      (\<forall>h. task t \<noteq> Some h \<longrightarrow> futures (fst (cancel_timer (Some tid) w)) h = futures w h)) \<and>
   (map_of (timers w) tid' = None \<longrightarrow> cancel_timer (Some tid') w = (w, False)) \<and>
   (map_of (alarms w) aid = Some a \<longrightarrow>
      snd (cancel_alarm (Some aid) w) = True \<and>
      alarms (fst (cancel_alarm (Some aid) w)) = filter (\<lambda>p. fst p \<noteq> aid) (alarms w) \<and>
      timers (fst (cancel_alarm (Some aid) w)) = timers w \<and>
      (\<forall>h. task a \<noteq> Some h \<longrightarrow> futures (fst (cancel_alarm (Some aid) w)) h = futures w h)) \<and>
   (map_of (alarms w) aid' = None \<longrightarrow> cancel_alarm (Some aid') w = (w, False))"
  by (simp add: cancel_timer_def cancel_alarm_def delete_filter cancel_task_futures)

theorem cancel_by_id_frame_witness:
  "map_of (timers busy_world) ''timer_1000_0'' = Some tea_timer \<and>
   snd (cancel_timer (Some ''timer_1000_0'') busy_world) = True \<and>
   timers (fst (cancel_timer (Some ''timer_1000_0'') busy_world)) =
     [(''timer_1000_1'', egg_timer)] \<and>
   alarms (fst (cancel_timer (Some ''timer_1000_0'') busy_world)) =
     [(''alarm_1000_0'', wake_alarm)] \<and>
   futures (fst (cancel_timer (Some ''timer_1000_0'') busy_world)) 1 = Pending \<and>
   map_of (timers busy_world) ''timer_9'' = None \<and>
   cancel_timer (Some ''timer_9'') busy_world = (busy_world, False) \<and>
   map_of (alarms busy_world) ''alarm_1000_0'' = Some wake_alarm \<and>
   snd (cancel_alarm (Some ''alarm_1000_0'') busy_world) = True \<and>
   alarms (fst (cancel_alarm (Some ''alarm_1000_0'') busy_world)) = [] \<and>
   timers (fst (cancel_alarm (Some ''alarm_1000_0'') busy_world)) =
     [(''timer_1000_0'', tea_timer), (''timer_1000_1'', egg_timer)] \<and>
   futures (fst (cancel_alarm (Some ''alarm_1000_0'') busy_world)) 0 = Pending \<and>
   map_of (alarms busy_world) ''alarm_9'' = None \<and>
   cancel_alarm (Some ''alarm_9'') busy_world = (busy_world, False)"
  using cancel_by_id_frame [where w = busy_world and tid = "''timer_1000_0''"
      and t = tea_timer and tid' = "''timer_9''" and aid = "''alarm_1000_0''"
      and a = wake_alarm and aid' = "''alarm_9''"]
  by (simp add: example_defs)

section \<open>Uniqueness of the generated ids (C7)\<close>

text \<open>
  Claim C7: every id that \<open>add_timer\<close> generates differs from every timer id
  generated before, and likewise for alarms.

  The id is made of the clock's whole second and the current size of the dict (lines
  171 and 187).  Within one second the size comes back to an earlier value as soon as
  an entry has been removed: here two timers are created, the first is cancelled, and
  the third timer gets the id of the second, which is still running, and replaces it.
  The same happens with alarms.  The three calls fall into the second 1000, at 1000,
  1000.25 and 1000.5.
\<close>

theorem generated_id_repeats:
  "(let (w1, id1) = add_timer 60 None 1000 empty_world;
        (w2, id2) = add_timer 120 None (4001 / 4) w1;
        (w3, found) = cancel_timer (Some id1) w2;
        (w4, id3) = add_timer 30 None (2001 / 2) w3
    in found \<and> id2 = ''timer_1000_1'' \<and> id3 = id2 \<and>
       map (\<lambda>(k, t). (k, duration t)) (timers w3) = [(''timer_1000_1'', 120)] \<and>
       map (\<lambda>(k, t). (k, duration t)) (timers w4) = [(''timer_1000_1'', 30)]) \<and>
   (case add_alarm 7 0 0 None 1000 eight_oclock empty_world of
      Inl e \<Rightarrow> False
    | Inr (w1, id1) \<Rightarrow>
        (case add_alarm 8 30 0 None (4001 / 4) eight_oclock w1 of
           Inl e \<Rightarrow> False
         | Inr (w2, id2) \<Rightarrow>
             (let (w3, found) = cancel_alarm (Some id1) w2
              in case add_alarm 9 15 0 None (2001 / 2) eight_oclock w3 of
                   Inl e \<Rightarrow> False
                 | Inr (w4, id3) \<Rightarrow>
                     found \<and> id2 = ''alarm_1000_1'' \<and> id3 = id2 \<and>
                     map (\<lambda>(k, a). (k, hour a, minute a)) (alarms w3) =
                       [(''alarm_1000_1'', 8, 30)] \<and>
                     map (\<lambda>(k, a). (k, hour a, minute a)) (alarms w4) =
                       [(''alarm_1000_1'', 9, 15)])))"
  by (simp add: add_timer_def cancel_timer_def add_alarm_def cancel_alarm_def cancel_task_def
      Let_def empty_world_def valid_time_def str_int_examples py_int_examples)


section \<open>When the callback runs (C2)\<close>

text \<open>
  Claim C2: the firing action of a timer or an alarm is scheduled with the delay
  \<open>max(0, target - now)\<close>, so that the callback does not run, nothing is sent and the
  entry is not removed by firing before the end time or the target time.

  \<open>set_timer\<close> hands the callback to \<open>asyncio.run_coroutine_threadsafe\<close> (lines
  384-387), which takes no delay; the duration goes to \<open>time.sleep\<close> in a thread
  that does nothing else (lines 390-395).  At the failing input a timer of 60 seconds
  is set at time 1000: its callback is ready at once, and the next iteration of the
  loop sends the message and removes the entry, whatever the clock shows.  An alarm
  set at 08:00 for 07:00 (lines 460-467) fires in the same way, 82800 seconds early.
\<close>

theorem callbacks_fire_at_once:
  "(let w1 = fst (set_timer live_conn 60 ''ok'' ''failed'' (Some ''tea'') 1000 empty_world);
        w2 = loop_iteration live_conn w1
    in map (\<lambda>(k, t). (k, end_time t)) (timers w1) = [(''timer_1000_0'', 1060)] \<and>
       loop_ready w1 = [(0, Timer_coro ''timer_1000_0'' (Some ''tea''))] \<and>
       sleepers w1 = [60] \<and>
       timers w2 = [] \<and> outbox w2 = [Timer_labelled ''tea''] \<and>
       submitted w2 = [(Chat, Timer_labelled ''tea'')] \<and> futures w2 0 = Finished) \<and>
   (let w1 = fst (set_alarm live_conn 7 0 ''ok'' ''failed'' 0 None 1000 eight_oclock
                    empty_world);
        w2 = loop_iteration live_conn w1
    in map (\<lambda>(k, a). (k, time a)) (alarms w1) = [(''alarm_1000_0'', combine 101 7 0)] \<and>
       loop_ready w1 = [(0, Alarm_coro ''alarm_1000_0'' None)] \<and>
       sleepers w1 = [82800] \<and>
       alarms w2 = [] \<and> outbox w2 = [Alarm_plain 7 0] \<and>
       submitted w2 = [(Chat, Alarm_plain 7 0)] \<and> futures w2 0 = Finished)"
  by (simp add: Let_def set_timer_def set_timer_body_def add_timer_def set_alarm_def
      set_alarm_body_def add_alarm_def valid_time_def combine_def dt_less_def
      total_seconds_def run_coroutine_threadsafe_def loop_iteration_def run_coro_def
      timer_callback_def timer_callback_body_def alarm_callback_def alarm_callback_body_def
      deliver_def ws_truthy_def example_defs str_int_examples py_int_examples)

section \<open>A delivery that fails (C3)\<close>

text \<open>
  Claim C3 as the spec has it: when the entry is still in the registry and delivering
  the message raises, the exception is caught and logged, does not leave the callback,
  and the entry is removed all the same.

  The whole body of the callback is one \<open>try\<close>, and the \<open>del\<close> comes after the
  delivery inside it (lines 285-294 and 315-324): an exception of \<open>send_stt_message\<close>
  skips it.  At the input below the entry is still in the registry after the callback.
\<close>

theorem failed_delivery_entry_stays:
  "ws_truthy closed_conn \<and> send_raises closed_conn \<and>
   map_of (timers busy_world) ''timer_1000_0'' = Some tea_timer \<and>
   map_of (timers (fst (timer_callback closed_conn ''timer_1000_0'' (Some ''tea'') busy_world)))
     ''timer_1000_0'' = Some tea_timer \<and>
   map_of (alarms busy_world) ''alarm_1000_0'' = Some wake_alarm \<and>
   map_of (alarms (fst (alarm_callback closed_conn ''alarm_1000_0'' None busy_world)))
     ''alarm_1000_0'' = Some wake_alarm"
  by (simp add: timer_callback_def timer_callback_body_def alarm_callback_def
      alarm_callback_body_def deliver_def Let_def example_defs ws_truthy_def)

text \<open>
  Claim C3, amended: when the entry is still in the registry and \<open>send_stt_message\<close>
  raises, the exception is caught and logged and does not leave the callback, and the
  registry is left as it was: the entry stays, nothing is sent and nothing is
  submitted to the chat.
\<close>

theorem delivery_failure_keeps_entry:
  "(ws_truthy c \<and> send_raises c \<and> map_of (timers w) tid = Some t \<longrightarrow>
      snd (timer_callback c tid lbl w) = None \<and>
      timers (fst (timer_callback c tid lbl w)) = timers w \<and>
      alarms (fst (timer_callback c tid lbl w)) = alarms w \<and>
      outbox (fst (timer_callback c tid lbl w)) = outbox w \<and>
      submitted (fst (timer_callback c tid lbl w)) = submitted w \<and>
      logs (fst (timer_callback c tid lbl w)) = logs w @ [Error_timer_callback Delivery_failed]) \<and>
   (ws_truthy c' \<and> send_raises c' \<and> map_of (alarms w) aid = Some a \<longrightarrow>
      snd (alarm_callback c' aid lbl' w) = None \<and>
      timers (fst (alarm_callback c' aid lbl' w)) = timers w \<and>
      alarms (fst (alarm_callback c' aid lbl' w)) = alarms w \<and>
      outbox (fst (alarm_callback c' aid lbl' w)) = outbox w \<and>
      submitted (fst (alarm_callback c' aid lbl' w)) = submitted w \<and>
      logs (fst (alarm_callback c' aid lbl' w)) = logs w @ [Error_alarm_callback Delivery_failed])"
  by (simp add: timer_callback_def timer_callback_body_def alarm_callback_def
      alarm_callback_body_def deliver_def Let_def)

theorem delivery_failure_keeps_entry_witness:
  "ws_truthy closed_conn \<and> send_raises closed_conn \<and>
   map_of (timers busy_world) ''timer_1000_0'' = Some tea_timer \<and>
   snd (timer_callback closed_conn ''timer_1000_0'' (Some ''tea'') busy_world) = None \<and>
   timers (fst (timer_callback closed_conn ''timer_1000_0'' (Some ''tea'') busy_world)) =
     timers busy_world \<and>
   logs (fst (timer_callback closed_conn ''timer_1000_0'' (Some ''tea'') busy_world)) =
     logs busy_world @ [Error_timer_callback Delivery_failed] \<and>
   map_of (alarms busy_world) ''alarm_1000_0'' = Some wake_alarm \<and>
   snd (alarm_callback closed_conn ''alarm_1000_0'' None busy_world) = None \<and>
   alarms (fst (alarm_callback closed_conn ''alarm_1000_0'' None busy_world)) =
     alarms busy_world \<and>
   logs (fst (alarm_callback closed_conn ''alarm_1000_0'' None busy_world)) =
     logs busy_world @ [Error_alarm_callback Delivery_failed]"
  using delivery_failure_keeps_entry [where c = closed_conn and w = busy_world
      and tid = "''timer_1000_0''" and t = tea_timer and lbl = "Some ''tea''"
      and c' = closed_conn and aid = "''alarm_1000_0''" and a = wake_alarm and lbl' = None]
  by (simp add: example_defs ws_truthy_def)

section \<open>A connection without a websocket (C9)\<close>

text \<open>
  Claim C9: when the entry is still in the registry and the connection has no truthy
  \<open>websocket\<close> attribute, the callback sends nothing and submits nothing to the chat,
  and still removes the entry: lines 283 and 313 guard the delivery only, the \<open>del\<close>
  of lines 294 and 324 is outside the guard.  No exception leaves the callback.
\<close>

theorem no_websocket_removes_silently:
  "(\<not> ws_truthy c \<and> map_of (timers w) tid = Some t \<longrightarrow>
      snd (timer_callback c tid lbl w) = None \<and>
      outbox (fst (timer_callback c tid lbl w)) = outbox w \<and>
      submitted (fst (timer_callback c tid lbl w)) = submitted w \<and>
      timers (fst (timer_callback c tid lbl w)) = filter (\<lambda>p. fst p \<noteq> tid) (timers w) \<and>
      map_of (timers (fst (timer_callback c tid lbl w))) tid = None \<and>
      alarms (fst (timer_callback c tid lbl w)) = alarms w) \<and>
   (\<not> ws_truthy c' \<and> map_of (alarms w) aid = Some a \<longrightarrow>
      snd (alarm_callback c' aid lbl' w) = None \<and>
      outbox (fst (alarm_callback c' aid lbl' w)) = outbox w \<and>
      submitted (fst (alarm_callback c' aid lbl' w)) = submitted w \<and>
      alarms (fst (alarm_callback c' aid lbl' w)) = filter (\<lambda>p. fst p \<noteq> aid) (alarms w) \<and>
      map_of (alarms (fst (alarm_callback c' aid lbl' w))) aid = None \<and>
      timers (fst (alarm_callback c' aid lbl' w)) = timers w)"
  by (simp add: timer_callback_def timer_callback_body_def alarm_callback_def
      alarm_callback_body_def deliver_def Let_def delete_filter [symmetric] AList.delete_conv')

theorem no_websocket_removes_silently_witness:
  "\<not> ws_truthy detached_conn \<and>
   map_of (timers busy_world) ''timer_1000_0'' = Some tea_timer \<and>
   snd (timer_callback detached_conn ''timer_1000_0'' (Some ''tea'') busy_world) = None \<and>
   outbox (fst (timer_callback detached_conn ''timer_1000_0'' (Some ''tea'') busy_world)) = [] \<and>
   submitted (fst (timer_callback detached_conn ''timer_1000_0'' (Some ''tea'') busy_world)) = [] \<and>
   timers (fst (timer_callback detached_conn ''timer_1000_0'' (Some ''tea'') busy_world)) =
     [(''timer_1000_1'', egg_timer)] \<and>
   map_of (alarms busy_world) ''alarm_1000_0'' = Some wake_alarm \<and>
   snd (alarm_callback detached_conn ''alarm_1000_0'' None busy_world) = None \<and>
   outbox (fst (alarm_callback detached_conn ''alarm_1000_0'' None busy_world)) = [] \<and>
   submitted (fst (alarm_callback detached_conn ''alarm_1000_0'' None busy_world)) = [] \<and>
   alarms (fst (alarm_callback detached_conn ''alarm_1000_0'' None busy_world)) = []"
  using no_websocket_removes_silently [where c = detached_conn and w = busy_world
      and tid = "''timer_1000_0''" and t = tea_timer and lbl = "Some ''tea''"
      and c' = detached_conn and aid = "''alarm_1000_0''" and a = wake_alarm and lbl' = None]
  by (simp add: example_defs ws_truthy_def)

section \<open>The target time of an alarm (C4)\<close>

text \<open>
  Claim C4: for a valid hour and minute \<open>add_alarm\<close> stores an alarm whose target
  time is today plus the day offset at hour:minute; when the offset is 0 and that
  instant is before now, the target is tomorrow at hour:minute; with a positive offset
  the date is never moved.  The other alarms are as before.

  The witness is the scenario of the spec: 07:00 asked for at 08:00 gives tomorrow,
  asked for at 06:00 gives today, and asked for at 08:00 with offset 2 gives the day
  after tomorrow.
\<close>

theorem add_alarm_target_time:
  "valid_time h m \<longrightarrow>
     (\<exists>w' aid a.
        add_alarm h m off lbl t now w = Inr (w', aid) \<and>
        map_of (alarms w') aid = Some a \<and>
        (\<forall>k. k \<noteq> aid \<longrightarrow> map_of (alarms w') k = map_of (alarms w) k) \<and>
        hour a = h \<and> minute a = m \<and> day_offset a = off \<and>
        time a =
          (if off = 0 \<and> dt_less (combine (dt_day now) h m) now
           then combine (dt_day now + 1) h m
           else combine (dt_day now + off) h m))"
  by (auto simp: add_alarm_def Let_def AList.update_conv')

theorem add_alarm_target_time_witness:
  "valid_time 7 0 \<and>
   (\<exists>w' aid a.
      add_alarm 7 0 0 None 1000 eight_oclock empty_world = Inr (w', aid) \<and>
      map_of (alarms w') aid = Some a \<and> time a = combine 101 7 0) \<and>
   (\<exists>w' aid a.
      add_alarm 7 0 0 None 1000 (eight_oclock\<lparr>dt_hour := 6\<rparr>) empty_world = Inr (w', aid) \<and>
      map_of (alarms w') aid = Some a \<and> time a = combine 100 7 0) \<and>
   (\<exists>w' aid a.
      add_alarm 7 0 2 None 1000 eight_oclock empty_world = Inr (w', aid) \<and>
      map_of (alarms w') aid = Some a \<and> time a = combine 102 7 0)"
proof -
  have v: "valid_time 7 0"
    by (simp add: valid_time_def)
  have past: "dt_less (combine (dt_day eight_oclock) 7 0) eight_oclock"
    by (simp add: dt_less_def combine_def eight_oclock_def)
  have future: "\<not> dt_less (combine (dt_day (eight_oclock\<lparr>dt_hour := 6\<rparr>)) 7 0)
                    (eight_oclock\<lparr>dt_hour := 6\<rparr>)"
    by (simp add: dt_less_def combine_def eight_oclock_def)
  have day: "dt_day eight_oclock = 100" "dt_day (eight_oclock\<lparr>dt_hour := 6\<rparr>) = 100"
    by (simp_all add: eight_oclock_def)
  from v past day
    add_alarm_target_time [where h = 7 and m = 0 and off = 0 and lbl = None and t = 1000
      and now = eight_oclock and w = empty_world]
  have a: "\<exists>w' aid a.
      add_alarm 7 0 0 None 1000 eight_oclock empty_world = Inr (w', aid) \<and>
      map_of (alarms w') aid = Some a \<and> time a = combine 101 7 0"
    by fastforce
  from v future day
    add_alarm_target_time [where h = 7 and m = 0 and off = 0 and lbl = None and t = 1000
      and now = "eight_oclock\<lparr>dt_hour := 6\<rparr>" and w = empty_world]
  have b: "\<exists>w' aid a.
      add_alarm 7 0 0 None 1000 (eight_oclock\<lparr>dt_hour := 6\<rparr>) empty_world = Inr (w', aid) \<and>
      map_of (alarms w') aid = Some a \<and> time a = combine 100 7 0"
    by fastforce
  from v day
    add_alarm_target_time [where h = 7 and m = 0 and off = 2 and lbl = None and t = 1000
      and now = eight_oclock and w = empty_world]
  have c: "\<exists>w' aid a.
      add_alarm 7 0 2 None 1000 eight_oclock empty_world = Inr (w', aid) \<and>
      map_of (alarms w') aid = Some a \<and> time a = combine 102 7 0"
    by fastforce
  from v a b c show ?thesis by blast
qed

section \<open>Setting a timer (C5)\<close>

text \<open>
  Claim C5: \<open>set_timer\<close> with a positive duration writes one entry, under the
  generated id, whose end time minus start time is the duration, changes no other
  entry, and returns the success response; with a duration of 0 or less it changes
  nothing and returns the validation error.

  The entry goes to the end of the dict when its id is new.  (When the id is already
  a key, the assignment of line 175 replaces that entry: see C7.)
\<close>

theorem set_timer_creates_entry:
  "(0 < dur \<longrightarrow>
      (let tid = ''timer_'' @ str_int (py_int now) @ ''_'' @ str_int (int (length (timers w)));
           e = \<lparr>label = lbl, task = Some (next_handle w), duration = dur, start_time = now,
                end_time = now + of_int dur\<rparr>;
           w' = fst (set_timer c dur rs rf lbl now w);
           r = snd (set_timer c dur rs rf lbl now w)
       in timers w' = AList.update tid e (timers w) \<and>
          (tid \<notin> fst ` set (timers w) \<longrightarrow> timers w' = timers w @ [(tid, e)]) \<and>
          end_time e - start_time e = of_int dur \<and>
          alarms w' = alarms w \<and>
          r = \<lparr>action = RESPONSE, result = Timer_is_set (format_time_duration dur),
               response = Timer_filled rs (format_time_duration dur) (now + of_int dur)
                            (label_or_empty lbl)\<rparr>)) \<and>
   (dur' \<le> 0 \<longrightarrow>
      set_timer c dur' rs rf lbl now w =
        (w, \<lparr>action = RESPONSE, result = Invalid_duration,
             response = Duration_must_be_positive\<rparr>))"
  by (simp add: set_timer_def set_timer_body_def add_timer_def run_coroutine_threadsafe_def
      Let_def AList.update_conv' update_fresh)

theorem set_timer_creates_entry_witness:
  "(0::int) < 60 \<and>
   timers (fst (set_timer live_conn 60 ''ok'' ''failed'' (Some ''tea'') 1000 empty_world)) =
     [(''timer_1000_0'', tea_timer)] \<and>
   end_time tea_timer - start_time tea_timer = 60 \<and>
   snd (set_timer live_conn 60 ''ok'' ''failed'' (Some ''tea'') 1000 empty_world) =
     \<lparr>action = RESPONSE, result = Timer_is_set (Minutes_text 1),
      response = Timer_filled ''ok'' (Minutes_text 1) 1060 ''tea''\<rparr> \<and>
   (0::int) \<le> 0 \<and>
   set_timer live_conn 0 ''ok'' ''failed'' (Some ''tea'') 1000 busy_world =
     (busy_world, \<lparr>action = RESPONSE, result = Invalid_duration,
                   response = Duration_must_be_positive\<rparr>) \<and>
   set_timer live_conn (- 5) ''ok'' ''failed'' None 1000 empty_world =
     (empty_world, \<lparr>action = RESPONSE, result = Invalid_duration,
                    response = Duration_must_be_positive\<rparr>)"
  using set_timer_creates_entry [where dur = 60 and now = 1000 and w = empty_world
      and lbl = "Some ''tea''" and c = live_conn and rs = "''ok''" and rf = "''failed''"
      and dur' = 0]
    set_timer_creates_entry [where dur = 60 and now = 1000 and w = busy_world
      and lbl = "Some ''tea''" and c = live_conn and rs = "''ok''" and rf = "''failed''"
      and dur' = 0]
    set_timer_creates_entry [where dur = 60 and now = 1000 and w = empty_world
      and lbl = None and c = live_conn and rs = "''ok''" and rf = "''failed''"
      and dur' = "- 5"]
  by (simp add: Let_def example_defs str_int_examples py_int_examples format_time_duration_def
      label_or_empty_def truthy_def)

section \<open>Listing the timers (C6)\<close>

text \<open>
  Claim C6: \<open>get_timers\<close> returns the timers whose end time is still ahead and no
  other; every timer it finds expired is removed from the registry, and its future is
  cancelled when it is still pending.  The listing of \<open>check_timers_alarms('timer')\<close>
  is made of those timers, and each of its lines belongs to a timer whose end time is
  after both clock readings.

  The keys of the dict are distinct, as in every Python dict; then the \<open>del\<close> of
  line 261 finds its key and \<open>get_timers\<close> does not raise.
\<close>

theorem get_timers_prunes_expired:
  "distinct (map fst (timers w)) \<Longrightarrow>
     snd (get_timers now w) = Inr (filter (\<lambda>p. now < end_time (snd p)) (timers w)) \<and>
     timers (fst (get_timers now w)) = filter (\<lambda>p. now < end_time (snd p)) (timers w) \<and>
     alarms (fst (get_timers now w)) = alarms w \<and>
     (\<forall>p \<in> set (timers w). \<forall>h.
        end_time (snd p) \<le> now \<and> task (snd p) = Some h \<and> futures w h = Pending \<longrightarrow>
        futures (fst (get_timers now w)) h = Cancelled) \<and>
     (\<forall>h. futures w h \<noteq> Pending \<longrightarrow> futures (fst (get_timers now w)) h = futures w h) \<and>
     response (snd (check_timers_alarms c ''timer'' rs rf now later dnow w)) =
       Listings [if filter (\<lambda>p. now < end_time (snd p)) (timers w) \<noteq> []
                 then Timer_listing
                        (timer_lines later 1 (filter (\<lambda>p. now < end_time (snd p)) (timers w)))
                 else No_timers_listing] \<and>
     (\<forall>row \<in> set (timer_lines later 1 (filter (\<lambda>p. now < end_time (snd p)) (timers w))).
        later < line_end row \<and>
        (\<exists>p \<in> set (timers w). now < end_time (snd p) \<and> line_end row = end_time (snd p))) \<and>
     timers (fst (check_timers_alarms c ''timer'' rs rf now later dnow w)) =
       filter (\<lambda>p. now < end_time (snd p)) (timers w)"
proof -
  assume d: "distinct (map fst (timers w))"
  have u: "unexpired now = (\<lambda>p. now < end_time (snd p))"
    by (simp add: unexpired_def fun_eq_iff)
  have a: "snd (get_timers now w) = Inr (filter (\<lambda>p. now < end_time (snd p)) (timers w))"
    and b: "timers (fst (get_timers now w)) = filter (\<lambda>p. now < end_time (snd p)) (timers w)"
    and c: "alarms (fst (get_timers now w)) = alarms w"
    using get_timers_eq [OF d, of now] by (simp_all add: u)
  have f: "futures (fst (get_timers now w)) = pruned_futures now (timers w) (futures w)"
    using get_timers_eq [OF d, of now] by simp
  have e: "\<forall>p \<in> set (timers w). \<forall>h.
        end_time (snd p) \<le> now \<and> task (snd p) = Some h \<and> futures w h = Pending \<longrightarrow>
        futures (fst (get_timers now w)) h = Cancelled"
    unfolding f by (force simp: pruned_futures_def unexpired_def)
  have g: "\<forall>h. futures w h \<noteq> Pending \<longrightarrow> futures (fst (get_timers now w)) h = futures w h"
    unfolding f by (simp add: pruned_futures_def)
  have h: "response (snd (check_timers_alarms c ''timer'' rs rf now later dnow w)) =
       Listings [if filter (\<lambda>p. now < end_time (snd p)) (timers w) \<noteq> []
                 then Timer_listing
                        (timer_lines later 1 (filter (\<lambda>p. now < end_time (snd p)) (timers w)))
                 else No_timers_listing]"
    and i: "timers (fst (check_timers_alarms c ''timer'' rs rf now later dnow w)) =
       filter (\<lambda>p. now < end_time (snd p)) (timers w)"
    using check_timers_eq [OF d, of c rs rf now later dnow] by (simp_all add: u)
  have j: "\<forall>row \<in> set (timer_lines later 1 (filter (\<lambda>p. now < end_time (snd p)) (timers w))).
        later < line_end row \<and>
        (\<exists>p \<in> set (timers w). now < end_time (snd p) \<and> line_end row = end_time (snd p))"
  proof
    fix row
    assume "row \<in> set (timer_lines later 1 (filter (\<lambda>p. now < end_time (snd p)) (timers w)))"
    from timer_lines_unexpired [OF this]
    show "later < line_end row \<and>
        (\<exists>p \<in> set (timers w). now < end_time (snd p) \<and> line_end row = end_time (snd p))"
      by force
  qed
  from a b c e g h i j show ?thesis by blast
qed

theorem get_timers_prunes_expired_witness:
  "distinct (map fst (timers busy_world)) \<and>
   snd (get_timers 1070 busy_world) = Inr [(''timer_1000_1'', egg_timer)] \<and>
   timers (fst (get_timers 1070 busy_world)) = [(''timer_1000_1'', egg_timer)] \<and>
   alarms (fst (get_timers 1070 busy_world)) = [(''alarm_1000_0'', wake_alarm)] \<and>
   futures (fst (get_timers 1070 busy_world)) 0 = Cancelled \<and>
   response (snd (check_timers_alarms live_conn ''timer'' ''ok'' ''failed'' 1070 1071
                    eight_oclock busy_world)) =
     Listings [Timer_listing [Timer_line 1 (Seconds_text 49) [] 1120]] \<and>
   timers (fst (check_timers_alarms live_conn ''timer'' ''ok'' ''failed'' 1070 1071
                  eight_oclock busy_world)) = [(''timer_1000_1'', egg_timer)]"
proof -
  have d: "distinct (map fst (timers busy_world))"
    by (simp add: example_defs)
  have p: "py_int 49 = 49"
    by (simp add: py_int_def)
  have in_reg: "(''timer_1000_0'', tea_timer) \<in> set (timers busy_world)"
    by (simp add: example_defs)
  have old: "end_time (snd (''timer_1000_0'', tea_timer)) \<le> 1070 \<and>
             task (snd (''timer_1000_0'', tea_timer)) = Some 0 \<and> futures busy_world 0 = Pending"
    by (simp add: example_defs)
  note t = get_timers_prunes_expired [OF d, of 1070 live_conn "''ok''" "''failed''" 1071 eight_oclock]
  from t in_reg old have "futures (fst (get_timers 1070 busy_world)) 0 = Cancelled"
    by blast
  with d t show ?thesis
    by (simp add: example_defs Let_def p format_time_duration_def label_text_def truthy_def)
qed

section \<open>Cancelling all with one id given (C10)\<close>

text \<open>
  Claim C10 as written: \<open>cancel_timer_alarm('all')\<close> with a timer id and no alarm
  id removes that timer only, all other timers stay, and every alarm is removed.

  \<open>cancel_timer_alarm\<close> calls \<open>get_timers\<close> first (line 600), which removes the
  expired timers.  At time 1070 the tea timer has expired: cancelling the egg timer
  removes the tea timer as well.
\<close>

theorem cancel_all_prunes_expired_too:
  "map_of (timers busy_world) ''timer_1000_0'' = Some tea_timer \<and>
   ''timer_1000_0'' \<noteq> ''timer_1000_1'' \<and>
   map_of (timers (fst (cancel_timer_alarm live_conn ''all'' ''ok'' ''failed''
                          (Some ''timer_1000_1'') None 1070 busy_world)))
     ''timer_1000_0'' = None \<and>
   timers (fst (cancel_timer_alarm live_conn ''all'' ''ok'' ''failed''
                  (Some ''timer_1000_1'') None 1070 busy_world)) = []"
  by (simp add: cancel_timer_alarm_def cancel_timer_alarm_body_def cancel_timer_part_def
      cancel_alarm_part_def get_timers_def get_alarms_def cancel_timer_def cancel_alarm_def
      truthy_def Let_def example_defs)

text \<open>
  Claim C10, amended: with a timer id and no alarm id, \<open>cancel_timer_alarm('all')\<close>
  removes the timer of that id and the timers whose end time has passed, keeps every
  other timer, and removes every alarm; with an alarm id and no timer id it removes
  every timer and, of the alarms, the one of that id only.
\<close>

theorem cancel_all_with_one_id:
  "distinct (map fst (timers w)) \<Longrightarrow>
     timers (fst (cancel_timer_alarm c ''all'' rs rf (Some tid) None now w)) =
       filter (\<lambda>p. now < end_time (snd p) \<and> fst p \<noteq> tid) (timers w) \<and>
     alarms (fst (cancel_timer_alarm c ''all'' rs rf (Some tid) None now w)) = [] \<and>
     timers (fst (cancel_timer_alarm c ''all'' rs rf None (Some aid) now w)) = [] \<and>
     alarms (fst (cancel_timer_alarm c ''all'' rs rf None (Some aid) now w)) =
       filter (\<lambda>p. fst p \<noteq> aid) (alarms w)"
proof -
  assume d: "distinct (map fst (timers w))"
  have c1: "timers (fst (cancel_timer None v)) = []" for v
    by (simp add: cancel_timer_def Let_def)
  have c2: "alarms (fst (cancel_alarm None v)) = []" for v
    by (simp add: cancel_alarm_def Let_def)
  show ?thesis
    unfolding cancel_timer_alarm_all_world [OF d]
    by (simp add: cancel_timer_some_timers cancel_alarm_some_alarms unexpired_def c1 c2)
qed

theorem cancel_all_with_one_id_witness:
  "distinct (map fst (timers busy_world)) \<and>
   timers (fst (cancel_timer_alarm live_conn ''all'' ''ok'' ''failed''
                  (Some ''timer_1000_0'') None 1001 busy_world)) =
     [(''timer_1000_1'', egg_timer)] \<and>
   alarms (fst (cancel_timer_alarm live_conn ''all'' ''ok'' ''failed''
                  (Some ''timer_1000_0'') None 1001 busy_world)) = [] \<and>
   timers (fst (cancel_timer_alarm live_conn ''all'' ''ok'' ''failed''
                  None (Some ''alarm_9'') 1001 busy_world)) = [] \<and>
   alarms (fst (cancel_timer_alarm live_conn ''all'' ''ok'' ''failed''
                  None (Some ''alarm_9'') 1001 busy_world)) = [(''alarm_1000_0'', wake_alarm)]"
proof -
  have d: "distinct (map fst (timers busy_world))"
    by (simp add: example_defs)
  have t: "timers busy_world = [(''timer_1000_0'', tea_timer), (''timer_1000_1'', egg_timer)]"
    and a: "alarms busy_world = [(''alarm_1000_0'', wake_alarm)]"
    by (simp_all add: busy_world_def)
  have e: "end_time tea_timer = 1060" "end_time egg_timer = 1120"
    by (simp_all add: tea_timer_def egg_timer_def)
  from d cancel_all_with_one_id [OF d, of live_conn "''ok''" "''failed''" "''timer_1000_0''"
      1001 "''alarm_9''"]
  show ?thesis
    by (simp add: t a e)
qed

end
